theory Spec2Isabelle
  imports
    Main
    "HOL-Library.Char_ord"
    "HOL-Library.List_Lexorder"
    "HOL-Library.Multiset"
begin

section \<open>JavaScript strings, numbers and objects\<close>

text \<open>
  The server is one JavaScript file, \<^verbatim>\<open>src/server.js\<close>. A JavaScript string is a sequence
  of UTF-16 code units and \<^verbatim>\<open>.length\<close> counts code units. The model writes a string as a
  HOL \<^typ>\<open>string\<close> with one \<^typ>\<open>char\<close> per code unit, which covers the strings
  whose code units are below 256 (ASCII and the Latin-1 supplement); \<^term>\<open>length\<close> is then
  \<^verbatim>\<open>.length\<close>.
\<close>

definition startsWith :: "string \<Rightarrow> string \<Rightarrow> bool" where
  "startsWith s p = (take (length p) s = p)"

definition endsWith :: "string \<Rightarrow> string \<Rightarrow> bool" where
  "endsWith s p = (length p \<le> length s \<and> drop (length s - length p) s = p)"

text \<open>\<^verbatim>\<open>s.includes(p)\<close>: \<^verbatim>\<open>p\<close> occurs in \<^verbatim>\<open>s\<close> at some position.\<close>

fun str_includes :: "string \<Rightarrow> string \<Rightarrow> bool" where
  "str_includes [] p = (p = [])"
| "str_includes (c # cs) p = (startsWith (c # cs) p \<or> str_includes cs p)"

text \<open>
  \<^verbatim>\<open>s.replace(pat, rep)\<close> with a string pattern replaces the first occurrence only (the
  replacement strings of the source hold no \<^verbatim>\<open>$\<close> pattern).
\<close>

fun replaceFirst :: "string \<Rightarrow> string \<Rightarrow> string \<Rightarrow> string" where
  "replaceFirst pat rep [] = (if pat = [] then rep else [])"
| "replaceFirst pat rep (c # cs) =
     (if startsWith (c # cs) pat then rep @ drop (length pat) (c # cs)
      else c # replaceFirst pat rep cs)"

text \<open>
  \<^verbatim>\<open>Buffer.byteLength(s)\<close>: the length of the UTF-8 encoding, which is also what
  \<^verbatim>\<open>res.write(s)\<close> puts on the wire. A code unit below 128 is one byte, one from 128 to
  255 is two.
\<close>

definition byteLength :: "string \<Rightarrow> nat" where
  "byteLength s = sum_list (map (\<lambda>c. if (of_char c :: nat) < 128 then 1 else 2) s)"

definition digitChar :: "nat \<Rightarrow> char" where
  "digitChar d = ''0123456789abcdefghijklmnopqrstuvwxyz'' ! d"

text \<open>\<^verbatim>\<open>n.toString(r)\<close> for a non-negative integer; JavaScript raises outside radix 2..36.\<close>

function toStringRadix :: "nat \<Rightarrow> nat \<Rightarrow> string" where
  "toStringRadix r n =
     (if r < 2 \<or> n < r then [digitChar n]
      else toStringRadix r (n div r) @ [digitChar (n mod r)])"
  by pat_completeness auto
termination
  by (relation "measure snd") auto

declare toStringRadix.simps [simp del]

definition padStart :: "nat \<Rightarrow> string \<Rightarrow> string \<Rightarrow> string" where
  "padStart n p s =
     (if n \<le> length s then s
      else if p = [] then s
      else take (n - length s) (concat (replicate (n - length s) p)) @ s)"

text \<open>
  An object with string values is a list of properties in insertion order. Setting a
  property that exists keeps its position; a new one goes last. (Keys that look like
  array indices are ordered first by JavaScript; the source has none.)
\<close>

type_synonym obj = "(string \<times> string) list"

fun setProp :: "obj \<Rightarrow> string \<Rightarrow> string \<Rightarrow> obj" where
  "setProp [] k v = [(k, v)]"
| "setProp ((k', v') # kvs) k v =
     (if k' = k then (k, v) # kvs else (k', v') # setProp kvs k v)"

text \<open>\<^verbatim>\<open>{...base, ...payload}\<close>: the properties of the payload are set one after the other.\<close>

definition objectSpread :: "obj \<Rightarrow> obj \<Rightarrow> obj" where
  "objectSpread base payload = foldl (\<lambda>ob kv. setProp ob (fst kv) (snd kv)) base payload"

text \<open>\<^verbatim>\<open>JSON.stringify\<close> of a string and of an object whose values are strings.\<close>

definition jsonChar :: "char \<Rightarrow> string" where
  "jsonChar c =
     (if c = CHR 0x22 then [CHR 0x5C, CHR 0x22]
      else if c = CHR 0x5C then [CHR 0x5C, CHR 0x5C]
      else if c = CHR 0x08 then [CHR 0x5C, CHR ''b'']
      else if c = CHR 0x09 then [CHR 0x5C, CHR ''t'']
      else if c = CHR 0x0A then [CHR 0x5C, CHR ''n'']
      else if c = CHR 0x0C then [CHR 0x5C, CHR ''f'']
      else if c = CHR 0x0D then [CHR 0x5C, CHR ''r'']
      else if (of_char c :: nat) < 32
        then [CHR 0x5C, CHR ''u''] @ padStart 4 ''0'' (toStringRadix 16 (of_char c))
      else [c])"

definition jsonQuote :: "string \<Rightarrow> string" where
  "jsonQuote s = [CHR 0x22] @ concat (map jsonChar s) @ [CHR 0x22]"

fun joinWith :: "string \<Rightarrow> string list \<Rightarrow> string" where
  "joinWith sep [] = []"
| "joinWith sep [x] = x"
| "joinWith sep (x # y # ys) = x @ sep @ joinWith sep (y # ys)"

definition JSON_stringify :: "obj \<Rightarrow> string" where
  "JSON_stringify ob =
     ''{'' @ joinWith '','' (map (\<lambda>kv. jsonQuote (fst kv) @ '':'' @ jsonQuote (snd kv)) ob) @ ''}''"

section \<open>Packet-line codec\<close>

text \<open>
  \<^verbatim>\<open>function packetLine(line) {
    const len = (line.length + 4).toString(16).padStart(4, '0');
    return len + line; }\<close>
\<close>

definition packetLine :: "string \<Rightarrow> string" where
  "packetLine line = padStart 4 ''0'' (toStringRadix 16 (length line + 4)) @ line"

definition flushPkt :: string where
  "flushPkt = ''0000''"

text \<open>
  The reading side, which the server does not have, after the specification: four
  lowercase hexadecimal digits give the length \<open>n\<close> of the whole packet, a length below 4
  or above 65520 is malformed, and the line is the \<open>n - 4\<close> characters that follow.
\<close>

definition hexValue :: "char \<Rightarrow> nat option" where
  "hexValue c =
     (let k = (of_char c :: nat) in
      if 48 \<le> k \<and> k \<le> 57 then Some (k - 48)
      else if 97 \<le> k \<and> k \<le> 102 then Some (k - 87)
      else None)"

fun parseHex :: "nat \<Rightarrow> string \<Rightarrow> nat option" where
  "parseHex acc [] = Some acc"
| "parseHex acc (c # cs) =
     (case hexValue c of None \<Rightarrow> None | Some d \<Rightarrow> parseHex (16 * acc + d) cs)"

definition decode_spec :: "string \<Rightarrow> string option" where
  "decode_spec pkt =
     (if length pkt < 4 then None
      else case parseHex 0 (take 4 pkt) of
        None \<Rightarrow> None
      | Some n \<Rightarrow>
          if n < 4 then None
          else if 65520 < n then None
          else if length pkt = n then Some (drop 4 pkt)
          else None)"

section \<open>The world outside the server\<close>

text \<open>
  What the server reads from Node.js and from the machine is an input of the model:
  the URL parser, \<^verbatim>\<open>path.join\<close>, the file system, the \<^verbatim>\<open>webhooks\<close> table, the
  \<^verbatim>\<open>git\<close> subprocess, the HTML templates of the browsing interface, the clock, the HMAC
  of \<^verbatim>\<open>node:crypto\<close> and the network towards the subscribers. Both tables are lists
  of rows in the order of their row identifiers.
\<close>

record urlobj =
  protocol :: string
  hostname :: string
  port :: string
  pathname :: string
  search :: string
  searchParams :: "(string \<times> string) list"

text \<open>
  A row of the table \<^verbatim>\<open>webhooks\<close>. \<^verbatim>\<open>createWebhook\<close> stores a text for the secret (the
  empty text when none is given) and leaves \<^verbatim>\<open>events\<close> to its default, \<^verbatim>\<open>push\<close>.
\<close>

record webhook =
  wid :: nat
  repo_name :: string
  url :: string
  secret :: string
  events :: string
  created_at :: string

record request =
  req_method :: string
  req_url :: string
  req_body :: string

datatype page =
    CommitPage string string
  | TreePage string string
  | BlobPage string string string
  | ComparePage string string string
  | RepoPage string

datatype rendered = Html string | Null | Throws

text \<open>What the network does with the request sent for a subscription.\<close>

datatype net_event = Response nat | Error string | Silent

record env =
  URL_base :: "string \<Rightarrow> urlobj option"
    \<comment> \<open>\<^verbatim>\<open>new URL(url, 'http://localhost')\<close>; \<open>None\<close> when it throws\<close>
  URL_abs :: "string \<Rightarrow> urlobj option"
    \<comment> \<open>\<^verbatim>\<open>new URL(url)\<close>; \<open>None\<close> when it throws\<close>
  REPOS_DIR :: string
  path_join :: "string \<Rightarrow> string \<Rightarrow> string"
  existsSync :: "string \<Rightarrow> bool"
  db_webhooks :: "webhook list"
  git :: "string list \<Rightarrow> string \<Rightarrow> string \<times> int option"
    \<comment> \<open>\<^verbatim>\<open>spawn('git', args)\<close> fed with the given input: its output and the code of its
        \<^verbatim>\<open>close\<close> event (\<open>None\<close> is \<^verbatim>\<open>null\<close>, a process ended by a signal)\<close>
  db_repositories :: "string list"
    \<comment> \<open>the names in the table \<^verbatim>\<open>repositories\<close>\<close>
  git_in :: "string \<Rightarrow> string list \<Rightarrow> string \<times> int option"
    \<comment> \<open>\<^verbatim>\<open>spawn('git', args, { cwd })\<close>: its output and the code of its \<^verbatim>\<open>close\<close> event\<close>
  page_text :: "page \<Rightarrow> string list \<Rightarrow> rendered"
    \<comment> \<open>what the template of a page makes of the outputs of its \<^verbatim>\<open>git\<close> commands: a
        text, or an exception\<close>
  clock :: "nat \<Rightarrow> nat"
    \<comment> \<open>the milliseconds shown by the \<open>n\<close>-th reading of the clock in one dispatch\<close>
  toISOString :: "nat \<Rightarrow> string"
  createHmac_hex :: "string \<Rightarrow> string \<Rightarrow> string \<Rightarrow> string"
    \<comment> \<open>\<^verbatim>\<open>createHmac(alg, key).update(msg).digest('hex')\<close>\<close>
  net :: "webhook \<Rightarrow> net_event"

section \<open>Request router\<close>

text \<open>
  \<^verbatim>\<open>pathname.match(/^\/([^/]+\.git)(\/.*)?$/)\<close>. The first group holds no slash and is
  followed by a slash or by the end, so it is the whole first segment; it must end in
  \<^verbatim>\<open>.git\<close> after at least one more character. The second group is the rest, in which
  \<^verbatim>\<open>.\<close> matches no line terminator. The result is the pair of the two groups.
\<close>

definition nonSlash :: "char \<Rightarrow> bool" where
  "nonSlash c = (c \<noteq> CHR ''/'')"

definition lineTerminator :: "char \<Rightarrow> bool" where
  "lineTerminator c = (c = CHR 0x0A \<or> c = CHR 0x0D)"

definition repoMatch :: "string \<Rightarrow> (string \<times> string option) option" where
  "repoMatch p =
     (case p of
        [] \<Rightarrow> None
      | c # cs \<Rightarrow>
          if c = CHR ''/'' then
            (let seg = takeWhile nonSlash cs; rest = dropWhile nonSlash cs in
             if 4 < length seg \<and> endsWith seg ''.git'' then
               (if rest = [] then Some (seg, None)
                else if list_ex lineTerminator rest then None
                else Some (seg, Some rest))
             else None)
          else None)"

record parsed =
  repo :: "string option"
  path :: string
  query :: "(string \<times> string) list"

text \<open>
  \<^verbatim>\<open>function parsePath(url)\<close>; \<open>None\<close> when \<^verbatim>\<open>new URL\<close> throws, which happens before the
  handler's \<^verbatim>\<open>try\<close>.
\<close>

definition parsePath :: "env \<Rightarrow> string \<Rightarrow> parsed option" where
  "parsePath e u =
     (case URL_base e u of
        None \<Rightarrow> None
      | Some urlObj \<Rightarrow>
          (case repoMatch (pathname urlObj) of
             Some m \<Rightarrow>
               Some \<lparr>repo = Some (fst m),
                     path = (case snd m of None \<Rightarrow> ''/'' | Some r \<Rightarrow> r),
                     query = searchParams urlObj\<rparr>
           | None \<Rightarrow>
               Some \<lparr>repo = None, path = pathname urlObj, query = searchParams urlObj\<rparr>))"

definition getRepoPath :: "env \<Rightarrow> string \<Rightarrow> string" where
  "getRepoPath e repoName = path_join e (REPOS_DIR e) repoName"

text \<open>\<^verbatim>\<open>query.get(name)\<close>: the first value of the name, or \<^verbatim>\<open>null\<close>.\<close>

definition query_get :: "(string \<times> string) list \<Rightarrow> string \<Rightarrow> string option" where
  "query_get q name = map_of q name"

text \<open>
  The routes of the management interface come first in the handler and compare the raw
  \<^verbatim>\<open>req.url\<close>. Their guards are modelled, their work is not: \<open>Some\<close> names the route
  that takes the request.

  \<^verbatim>\<open>req.url.match(/^\/api\/repos\/([^/]+\.git)\/webhooks(\/(\d+))?$/)\<close> gives the
  repository name and the identifier, if there is one.
\<close>

definition isDigit :: "char \<Rightarrow> bool" where
  "isDigit c = (48 \<le> (of_char c :: nat) \<and> (of_char c :: nat) \<le> 57)"

definition webhookMatch :: "string \<Rightarrow> (string \<times> string option) option" where
  "webhookMatch u =
     (if startsWith u ''/api/repos/'' then
        (let r = drop 11 u; seg = takeWhile nonSlash r; rest = dropWhile nonSlash r in
         if 4 < length seg \<and> endsWith seg ''.git'' then
           (if rest = ''/webhooks'' then Some (seg, None)
            else if startsWith rest ''/webhooks/'' \<and> 10 < length rest
                    \<and> list_all isDigit (drop 10 rest)
              then Some (seg, Some (drop 10 rest))
            else None)
         else None)
      else None)"

datatype api =
    Home_page
  | List_repositories
  | Create_repository
  | List_webhooks string
  | Create_webhook string
  | Delete_webhook string string
  | Delete_repository string

definition webhookRoute :: "request \<Rightarrow> api option" where
  "webhookRoute req =
     (case webhookMatch (req_url req) of
        None \<Rightarrow> None
      | Some m \<Rightarrow>
          (case snd m of
             None \<Rightarrow>
               if req_method req = ''GET'' then Some (List_webhooks (fst m))
               else if req_method req = ''POST'' then Some (Create_webhook (fst m))
               else None
           | Some webhookId \<Rightarrow>
               if req_method req = ''DELETE'' then Some (Delete_webhook (fst m) webhookId)
               else None))"

definition apiRoute :: "request \<Rightarrow> api option" where
  "apiRoute req =
     (if req_url req = ''/'' \<and> req_method req = ''GET'' then Some Home_page
      else if req_url req = ''/api/repos'' \<and> req_method req = ''GET''
        then Some List_repositories
      else if req_url req = ''/api/repos'' \<and> req_method req = ''POST''
        then Some Create_repository
      else case webhookRoute req of
        Some a \<Rightarrow> Some a
      | None \<Rightarrow>
          if startsWith (req_url req) ''/api/repos/'' \<and> req_method req = ''DELETE''
          then Some (Delete_repository (replaceFirst ''/api/repos/'' [] (req_url req)))
          else None)"

text \<open>
  The patterns of the browsing pages carry the flag \<^verbatim>\<open>i\<close>: letters match in either case.
  \<^verbatim>\<open>/^\/commit\/([a-f0-9]+)$/i\<close>, \<^verbatim>\<open>/^\/tree\/([a-f0-9]+|[^/]+)$/i\<close>,
  \<^verbatim>\<open>/^\/blob\/([a-f0-9]+|[^/]+)\/(.+)$/i\<close> and
  \<^verbatim>\<open>/^\/compare\/([a-f0-9]+)\.\.\.([a-f0-9]+)$/i\<close>.
\<close>

definition toUpper :: "char \<Rightarrow> char" where
  "toUpper c =
     (if 97 \<le> (of_char c :: nat) \<and> (of_char c :: nat) \<le> 122
      then char_of ((of_char c :: nat) - 32) else c)"

definition startsWithI :: "string \<Rightarrow> string \<Rightarrow> bool" where
  "startsWithI s p = (map toUpper (take (length p) s) = map toUpper p)"

definition isHexI :: "char \<Rightarrow> bool" where
  "isHexI c =
     (isDigit c \<or> (65 \<le> (of_char (toUpper c) :: nat) \<and> (of_char (toUpper c) :: nat) \<le> 70))"

definition commitMatch :: "string \<Rightarrow> string option" where
  "commitMatch p =
     (if startsWithI p ''/commit/'' \<and> 8 < length p \<and> list_all isHexI (drop 8 p)
      then Some (drop 8 p) else None)"

definition treeMatch :: "string \<Rightarrow> string option" where
  "treeMatch p =
     (if startsWithI p ''/tree/'' \<and> 6 < length p \<and> list_all nonSlash (drop 6 p)
      then Some (drop 6 p) else None)"

definition blobMatch :: "string \<Rightarrow> (string \<times> string) option" where
  "blobMatch p =
     (if startsWithI p ''/blob/'' then
        (let r = drop 6 p; seg = takeWhile nonSlash r; rest = dropWhile nonSlash r in
         if seg = [] then None
         else if length rest < 2 then None
         else if list_ex lineTerminator (tl rest) then None
         else Some (seg, tl rest))
      else None)"

definition compareMatch :: "string \<Rightarrow> (string \<times> string) option" where
  "compareMatch p =
     (if startsWithI p ''/compare/'' then
        (let r = drop 9 p; a = takeWhile isHexI r; rest = dropWhile isHexI r in
         if a = [] then None
         else if startsWith rest ''...'' \<and> 3 < length rest \<and> list_all isHexI (drop 3 rest)
           then Some (a, drop 3 rest)
         else None)
      else None)"

section \<open>Webhook dispatcher\<close>

text \<open>
  \<^verbatim>\<open>function listWebhooks(repoName)\<close>:
  \<^verbatim>\<open>SELECT * FROM webhooks WHERE repo_name = ? ORDER BY created_at DESC\<close>. The column is
  text and compares byte by byte, later rows first; rows of equal \<^verbatim>\<open>created_at\<close> keep
  the order of their row identifiers, which is the order of the table. (\<open>sort_key\<close> is
  stable, so sorting the reversed rows and reversing the result keeps equal rows in
  place.)
\<close>

definition listWebhooks :: "env \<Rightarrow> string \<Rightarrow> webhook list" where
  "listWebhooks e repoName =
     rev (sort_key created_at (rev (filter (\<lambda>w. repo_name w = repoName) (db_webhooks e))))"

text \<open>
  The request handed to \<^verbatim>\<open>http.request\<close> or \<^verbatim>\<open>https.request\<close>, with the body written
  to it. A header value that is a number in the source is its decimal text.
\<close>

record wreq =
  via_https :: bool
  rq_method :: string
  rq_hostname :: string
  rq_port :: string
  rq_path :: string
  rq_headers :: obj
  rq_body :: string

text \<open>
  One turn of the loop that gets past the event filter is a delivery attempt: the body
  is serialised, and then either the request is sent or the \<^verbatim>\<open>catch\<close> block logs the
  exception (\<^verbatim>\<open>new URL(webhook.url)\<close> throws on a text that is no absolute URL).
\<close>

datatype delivery = Sent wreq | Caught

record attempt =
  att_webhook :: webhook
  att_body :: string
  att_delivery :: delivery

text \<open>
  The body of the loop of \<^verbatim>\<open>triggerWebhooks\<close> for one row, at clock reading \<open>t\<close>;
  \<open>None\<close> is \<^verbatim>\<open>continue\<close>. It returns the number of the next clock reading:
  \<^verbatim>\<open>new Date()\<close> is read for the body, \<^verbatim>\<open>Date.now()\<close> for the delivery header.
\<close>

definition deliver ::
  "env \<Rightarrow> string \<Rightarrow> string \<Rightarrow> obj \<Rightarrow> nat \<Rightarrow> webhook \<Rightarrow> attempt option \<times> nat" where
  "deliver e repoName event payload t w =
     (if str_includes (events w) event then
        (let body = JSON_stringify
               (objectSpread
                  [(''event'', event), (''repository'', repoName),
                   (''timestamp'', toISOString e (clock e t))]
                  payload)
         in case URL_abs e (url w) of
              None \<Rightarrow>
                (Some \<lparr>att_webhook = w, att_body = body, att_delivery = Caught\<rparr>, Suc t)
            | Some u \<Rightarrow>
                (let hs = [(''Content-Type'', ''application/json''),
                           (''Content-Length'', toStringRadix 10 (byteLength body)),
                           (''X-GutHib-Event'', event),
                           (''X-GutHib-Delivery'', toStringRadix 10 (clock e (Suc t)))];
                     hs' = (if secret w = [] then hs
                            else setProp hs ''X-GutHib-Signature''
                                   (''sha256='' @ createHmac_hex e ''sha256'' (secret w) body))
                 in (Some \<lparr>att_webhook = w, att_body = body,
                           att_delivery = Sent
                             \<lparr>via_https = (protocol u = ''https:''),
                              rq_method = ''POST'',
                              rq_hostname = hostname u,
                              rq_port = (if port u = []
                                         then (if protocol u = ''https:'' then ''443'' else ''80'')
                                         else port u),
                              rq_path = pathname u @ search u,
                              rq_headers = hs',
                              rq_body = body\<rparr>\<rparr>,
                     Suc (Suc t))))
      else (None, t))"

fun triggerLoop ::
  "env \<Rightarrow> string \<Rightarrow> string \<Rightarrow> obj \<Rightarrow> nat \<Rightarrow> webhook list \<Rightarrow> attempt list" where
  "triggerLoop e repoName event payload t [] = []"
| "triggerLoop e repoName event payload t (w # ws) =
     (case fst (deliver e repoName event payload t w) of
        None \<Rightarrow> triggerLoop e repoName event payload (snd (deliver e repoName event payload t w)) ws
      | Some a \<Rightarrow>
          a # triggerLoop e repoName event payload (snd (deliver e repoName event payload t w)) ws)"

definition triggerWebhooks :: "env \<Rightarrow> string \<Rightarrow> string \<Rightarrow> obj \<Rightarrow> attempt list" where
  "triggerWebhooks e repoName event payload =
     triggerLoop e repoName event payload 0 (listWebhooks e repoName)"

text \<open>
  What the server prints for an attempt. The \<^verbatim>\<open>catch\<close> block prints one line, inside
  the loop. The response callback and the \<^verbatim>\<open>error\<close> listener of a sent request print one
  line each and do nothing else; they run later, when the network answers.
\<close>

datatype console =
    Log_responded string nat
  | Log_failed string string
  | Log_error string

definition catchLog :: "attempt \<Rightarrow> console list" where
  "catchLog a =
     (case att_delivery a of
        Caught \<Rightarrow> [Log_error (url (att_webhook a))]
      | Sent q \<Rightarrow> [])"

definition callbackLog :: "env \<Rightarrow> attempt \<Rightarrow> console list" where
  "callbackLog e a =
     (case att_delivery a of
        Caught \<Rightarrow> []
      | Sent q \<Rightarrow>
          (case net e (att_webhook a) of
             Response code \<Rightarrow> [Log_responded (url (att_webhook a)) code]
           | Error msg \<Rightarrow> [Log_failed (url (att_webhook a)) msg]
           | Silent \<Rightarrow> []))"

section \<open>Smart HTTP endpoint handlers\<close>

text \<open>
  What a handler makes of a request: the status and headers of \<^verbatim>\<open>res.writeHead\<close>, the
  body (what the handler writes, then the output of \<^verbatim>\<open>git\<close> piped into the response),
  every \<^verbatim>\<open>spawn('git', ...)\<close> made for the request (its arguments and its working
  directory, when one is given), the webhook attempts made once the subprocess has
  closed, the lines the dispatch loop prints, in order, and the lines the callbacks of
  the sent requests print: a multiset, since their order is the order in which the
  network answers. The subprocess is taken to start; what \<^verbatim>\<open>git\<close> writes to its
  standard error is printed by the server and is not part of the model.
\<close>

datatype spawn = Spawn "string list" "string option"

record response =
  status :: nat
  headers :: obj
  body :: string
  git_spawned :: "spawn list"
  dispatched :: "attempt list"
  printed :: "console list"
  printed_later :: "console multiset"

definition repositoryNotFound :: response where
  "repositoryNotFound =
     \<lparr>status = 404, headers = [(''Content-Type'', ''text/plain'')],
      body = ''Repository not found'', git_spawned = [], dispatched = [], printed = [],
      printed_later = {#}\<rparr>"

definition handleInfoRefs :: "env \<Rightarrow> request \<Rightarrow> string \<Rightarrow> string \<Rightarrow> response" where
  "handleInfoRefs e req repoName service =
     (let repoPath = getRepoPath e repoName in
      if existsSync e repoPath then
        (let serviceName = replaceFirst ''git-'' [] service;
             args = [replaceFirst ''git-'' [] service, ''--stateless-rpc'',
                     ''--advertise-refs'', repoPath]
         in \<lparr>status = 200,
             headers = [(''Content-Type'', ''application/x-git-'' @ serviceName @ ''-advertisement''),
                        (''Cache-Control'', ''no-cache'')],
             body = packetLine (''# service='' @ service @ [CHR 0x0A]) @ flushPkt
                    @ fst (git e args []),
             git_spawned = [Spawn args None], dispatched = [], printed = [],
             printed_later = {#}\<rparr>)
      else repositoryNotFound)"

definition handleUploadPack :: "env \<Rightarrow> request \<Rightarrow> string \<Rightarrow> response" where
  "handleUploadPack e req repoName =
     (let repoPath = getRepoPath e repoName in
      if existsSync e repoPath then
        (let args = [''upload-pack'', ''--stateless-rpc'', repoPath]
         in \<lparr>status = 200,
             headers = [(''Content-Type'', ''application/x-git-upload-pack-result''),
                        (''Cache-Control'', ''no-cache'')],
             body = fst (git e args (req_body req)),
             git_spawned = [Spawn args None], dispatched = [], printed = [],
             printed_later = {#}\<rparr>)
      else repositoryNotFound)"

text \<open>
  \<^verbatim>\<open>git.on('close', (code) => { if (code === 0) { triggerWebhooks(repoName, 'push',
  { ref: 'refs/heads/main' }); } });\<close>
\<close>

definition handleReceivePack :: "env \<Rightarrow> request \<Rightarrow> string \<Rightarrow> response" where
  "handleReceivePack e req repoName =
     (let repoPath = getRepoPath e repoName in
      if existsSync e repoPath then
        (let args = [''receive-pack'', ''--stateless-rpc'', repoPath];
             attempts = (if snd (git e args (req_body req)) = Some 0
                         then triggerWebhooks e repoName ''push'' [(''ref'', ''refs/heads/main'')]
                         else [])
         in \<lparr>status = 200,
             headers = [(''Content-Type'', ''application/x-git-receive-pack-result''),
                        (''Cache-Control'', ''no-cache'')],
             body = fst (git e args (req_body req)),
             git_spawned = [Spawn args None],
             dispatched = attempts,
             printed = concat (map catchLog attempts),
             printed_later = mset (concat (map (callbackLog e) attempts))\<rparr>)
      else repositoryNotFound)"

section \<open>The request handler\<close>

datatype outcome =
    Unhandled_rejection
  | Api api
  | Reply response

definition htmlPage :: "string \<Rightarrow> response" where
  "htmlPage html =
     \<lparr>status = 200, headers = [(''Content-Type'', ''text/html'')], body = html,
      git_spawned = [], dispatched = [], printed = [],
      printed_later = {#}\<rparr>"

definition notFound :: response where
  "notFound =
     \<lparr>status = 404, headers = [(''Content-Type'', ''text/plain'')], body = ''Not Found'',
      git_spawned = [], dispatched = [], printed = [],
      printed_later = {#}\<rparr>"

definition internalServerError :: response where
  "internalServerError =
     \<lparr>status = 500, headers = [(''Content-Type'', ''text/plain'')],
      body = ''Internal Server Error'', git_spawned = [], dispatched = [], printed = [],
      printed_later = {#}\<rparr>"

text \<open>
  The pages of the browsing interface. Each renderer looks the repository up in the
  table \<^verbatim>\<open>repositories\<close> and on disk and returns \<^verbatim>\<open>null\<close> when either is missing;
  otherwise it runs its \<^verbatim>\<open>git\<close> commands in the directory of the repository. The
  repository page ignores their exit codes; the others return \<^verbatim>\<open>null\<close> when a command
  does not close with code 0 or when the template raises.
\<close>

fun pageRepo :: "page \<Rightarrow> string" where
  "pageRepo (CommitPage r h) = r"
| "pageRepo (TreePage r t) = r"
| "pageRepo (BlobPage r t f) = r"
| "pageRepo (ComparePage r b h) = r"
| "pageRepo (RepoPage r) = r"

fun pageCommands :: "page \<Rightarrow> string list list" where
  "pageCommands (RepoPage r) =
     [[''branch'', ''-a''], [''tag'', ''-l''], [''log'', ''--all'', ''--oneline'', ''-20'']]"
| "pageCommands (CommitPage r h) =
     [[''show'', ''--format=%H%n%h%n%an%n%ae%n%at%n%s%n%b%n---BODY_END---'', ''--stat'', h],
      [''show'', ''--name-status'', ''--format='', h],
      [''show'', ''--format='', ''-p'', h]]"
| "pageCommands (TreePage r t) = [[''ls-tree'', ''-r'', ''--name-only'', t]]"
| "pageCommands (BlobPage r t f) = [[''show'', t @ '':'' @ f]]"
| "pageCommands (ComparePage r b h) = [[''diff'', b, h]]"

fun checksExit :: "page \<Rightarrow> bool" where
  "checksExit (RepoPage r) = False"
| "checksExit pg = True"

definition closedWithZero :: "string \<times> int option \<Rightarrow> bool" where
  "closedWithZero run = (snd run = Some 0)"

definition renderPage :: "env \<Rightarrow> page \<Rightarrow> rendered \<times> spawn list" where
  "renderPage e pg =
     (if pageRepo pg \<in> set (db_repositories e) then
        (if existsSync e (getRepoPath e (pageRepo pg)) then
           (let repoPath = getRepoPath e (pageRepo pg);
                runs = map (git_in e repoPath) (pageCommands pg);
                spawned = map (\<lambda>args. Spawn args (Some repoPath)) (pageCommands pg)
            in if checksExit pg then
                 (if list_all closedWithZero runs then
                    (case page_text e pg (map fst runs) of
                       Html html \<Rightarrow> (Html html, spawned)
                     | Null \<Rightarrow> (Null, spawned)
                     | Throws \<Rightarrow> (Null, spawned))
                  else (Null, spawned))
               else (page_text e pg (map fst runs), spawned))
         else (Null, []))
      else (Null, []))"

text \<open>
  A route either replies or lets the request pass to the next one, after the spawns it
  has made. A page route: when the pattern matches and the method is \<^verbatim>\<open>GET\<close> the page
  is rendered; a non-empty text is the reply, an exception is caught by the handler
  (500), and \<^verbatim>\<open>null\<close> or an empty text lets the request pass.
\<close>

datatype route = Replied response | Passed "spawn list"

definition pageRoute :: "env \<Rightarrow> request \<Rightarrow> page option \<Rightarrow> route" where
  "pageRoute e req pg =
     (case pg of
        None \<Rightarrow> Passed []
      | Some p \<Rightarrow>
          if req_method req = ''GET'' then
            (case fst (renderPage e p) of
               Html html \<Rightarrow>
                 if html = [] then Passed (snd (renderPage e p))
                 else Replied ((htmlPage html)\<lparr>git_spawned := snd (renderPage e p)\<rparr>)
             | Null \<Rightarrow> Passed (snd (renderPage e p))
             | Throws \<Rightarrow>
                 Replied (internalServerError\<lparr>git_spawned := snd (renderPage e p)\<rparr>))
          else Passed [])"

definition infoRefsRoute ::
  "env \<Rightarrow> request \<Rightarrow> string \<Rightarrow> string \<Rightarrow> (string \<times> string) list \<Rightarrow> route" where
  "infoRefsRoute e req r urlPath q =
     (if urlPath = ''/info/refs'' then
        (case query_get q ''service'' of
           None \<Rightarrow> Passed []
         | Some service \<Rightarrow>
             if service = ''git-upload-pack'' \<or> service = ''git-receive-pack''
             then Replied (handleInfoRefs e req r service)
             else Passed [])
      else Passed [])"

text \<open>
  The routes are tried in order; the reply is that of the first route that replies, or
  404 at the end, and the spawns of the routes passed on the way were made all the same.
\<close>

fun firstOf :: "spawn list \<Rightarrow> route list \<Rightarrow> response" where
  "firstOf sp [] = notFound\<lparr>git_spawned := sp\<rparr>"
| "firstOf sp (Passed sp' # rs) = firstOf (sp @ sp') rs"
| "firstOf sp (Replied r # rs) = r\<lparr>git_spawned := sp @ git_spawned r\<rparr>"

definition gitRoutes ::
  "env \<Rightarrow> request \<Rightarrow> string \<Rightarrow> string \<Rightarrow> (string \<times> string) list \<Rightarrow> response" where
  "gitRoutes e req r urlPath q =
     firstOf []
       [infoRefsRoute e req r urlPath q,
        (if urlPath = ''/git-upload-pack'' \<and> req_method req = ''POST''
         then Replied (handleUploadPack e req r) else Passed []),
        (if urlPath = ''/git-receive-pack'' \<and> req_method req = ''POST''
         then Replied (handleReceivePack e req r) else Passed []),
        pageRoute e req (map_option (CommitPage r) (commitMatch urlPath)),
        pageRoute e req (map_option (TreePage r) (treeMatch urlPath)),
        pageRoute e req (map_option (\<lambda>m. BlobPage r (fst m) (snd m)) (blobMatch urlPath)),
        pageRoute e req (map_option (\<lambda>m. ComparePage r (fst m) (snd m)) (compareMatch urlPath)),
        pageRoute e req (if urlPath = ''/'' then Some (RepoPage r) else None)]"

definition server :: "env \<Rightarrow> request \<Rightarrow> outcome" where
  "server e req =
     (case parsePath e (req_url req) of
        None \<Rightarrow> Unhandled_rejection
      | Some pp \<Rightarrow>
          (case apiRoute req of
             Some a \<Rightarrow> Api a
           | None \<Rightarrow>
               (case repo pp of
                  Some r \<Rightarrow> Reply (gitRoutes e req r (path pp) (query pp))
                | None \<Rightarrow> Reply notFound)))"

section \<open>A concrete installation\<close>

text \<open>
  An installation on which the handlers are evaluated below. The directory
  \<^verbatim>\<open>./repos\<close> holds the repositories \<^verbatim>\<open>demo.git\<close> and \<^verbatim>\<open>a..b~c.git\<close>, both
  registered; five
  subscriptions are stored, four of them for \<^verbatim>\<open>demo.git\<close>; \<^verbatim>\<open>git\<close> ends with code 1 on
  the input \<^verbatim>\<open>bad\<close> and with code 0 otherwise; every reading of the clock falls in the
  same millisecond. The two URL tables hold what \<^verbatim>\<open>new URL\<close> returns for the texts that
  occur.
\<close>

definition demo_target :: "string \<Rightarrow> (string \<times> string) list \<Rightarrow> urlobj" where
  "demo_target p q =
     \<lparr>protocol = ''http:'', hostname = ''localhost'', port = [], pathname = p,
      search = [], searchParams = q\<rparr>"

definition demo_URL_base :: "string \<Rightarrow> urlobj option" where
  "demo_URL_base =
     map_of
       [(''/demo.git/info/refs?service=git-upload-pack'',
           demo_target ''/demo.git/info/refs'' [(''service'', ''git-upload-pack'')]),
        (''/demo.git/info/refs?service=git-receive-pack'',
           demo_target ''/demo.git/info/refs'' [(''service'', ''git-receive-pack'')]),
        (''/demo.git/info/refs?service=git-archive'',
           demo_target ''/demo.git/info/refs'' [(''service'', ''git-archive'')]),
        (''/demo.git/info/refs'', demo_target ''/demo.git/info/refs'' []),
        (''/gone.git/info/refs?service=git-upload-pack'',
           demo_target ''/gone.git/info/refs'' [(''service'', ''git-upload-pack'')]),
        (''/a..b~c.git/info/refs?service=git-upload-pack'',
           demo_target ''/a..b~c.git/info/refs'' [(''service'', ''git-upload-pack'')]),
        (''/a/b.git/info/refs?service=git-upload-pack'',
           demo_target ''/a/b.git/info/refs'' [(''service'', ''git-upload-pack'')]),
        (''/a..b~c.git/'', demo_target ''/a..b~c.git/'' []),
        (''/demo.git/git-receive-pack'', demo_target ''/demo.git/git-receive-pack'' [])]"

definition demo_URL_abs :: "string \<Rightarrow> urlobj option" where
  "demo_URL_abs =
     map_of
       [(''http://ci.example.com/hook'',
           \<lparr>protocol = ''http:'', hostname = ''ci.example.com'', port = [],
            pathname = ''/hook'', search = [], searchParams = []\<rparr>),
        (''https://hooks.example.org:8443/notify?x=1'',
           \<lparr>protocol = ''https:'', hostname = ''hooks.example.org'', port = ''8443'',
            pathname = ''/notify'', search = ''?x=1'', searchParams = [(''x'', ''1'')]\<rparr>)]"

definition demo_webhooks :: "webhook list" where
  "demo_webhooks =
     [\<lparr>wid = 1, repo_name = ''demo.git'', url = ''http://ci.example.com/hook'',
       secret = [], events = ''push'', created_at = ''2024-05-01 10:00:00''\<rparr>,
      \<lparr>wid = 2, repo_name = ''demo.git'',
       url = ''https://hooks.example.org:8443/notify?x=1'',
       secret = ''s3cret'', events = ''pushover'', created_at = ''2024-05-02 10:00:00''\<rparr>,
      \<lparr>wid = 3, repo_name = ''other.git'', url = ''http://ci.example.com/hook'',
       secret = [], events = ''push'', created_at = ''2024-05-03 10:00:00''\<rparr>,
      \<lparr>wid = 4, repo_name = ''demo.git'', url = ''ci.example.com'',
       secret = [], events = ''nopush'', created_at = ''2024-05-04 10:00:00''\<rparr>,
      \<lparr>wid = 5, repo_name = ''demo.git'', url = ''http://ci.example.com/hook'',
       secret = [], events = ''release'', created_at = ''2024-05-05 10:00:00''\<rparr>]"

definition demo_env :: env where
  "demo_env =
     \<lparr>URL_base = demo_URL_base,
      URL_abs = demo_URL_abs,
      REPOS_DIR = ''./repos'',
      path_join = (\<lambda>dir name. ''repos/'' @ name),
      existsSync = (\<lambda>p. p = ''repos/demo.git'' \<or> p = ''repos/a..b~c.git''),
      db_webhooks = demo_webhooks,
      git = (\<lambda>args input. (''0000'', if input = ''bad'' then Some 1 else Some 0)),
      db_repositories = [''demo.git'', ''a..b~c.git''],
      git_in = (\<lambda>dir args. ([], Some 0)),
      page_text = (\<lambda>pg outputs. Html ''<!DOCTYPE html>''),
      clock = (\<lambda>n. 1714557600000),
      toISOString = (\<lambda>ms. ''2024-05-01T10:00:00.000Z''),
      createHmac_hex = (\<lambda>alg key msg. ''5d5b09f6dcb2d53a5fffc60c4ac0d55f'' ),
      net = (\<lambda>w. if wid w = 1 then Error ''connect ECONNREFUSED'' else Response 500)\<rparr>"

definition push_request :: "string \<Rightarrow> request" where
  "push_request input =
     \<lparr>req_method = ''POST'', req_url = ''/demo.git/git-receive-pack'', req_body = input\<rparr>"

definition get_request :: "string \<Rightarrow> request" where
  "get_request u = \<lparr>req_method = ''GET'', req_url = u, req_body = []\<rparr>"

text \<open>The attempts of one successful push to \<^verbatim>\<open>demo.git\<close>.\<close>

definition demo_attempts :: "attempt list" where
  "demo_attempts = triggerWebhooks demo_env ''demo.git'' ''push'' [(''ref'', ''refs/heads/main'')]"

text \<open>The value of the header \<^verbatim>\<open>name\<close> of each request sent.\<close>

definition sent_header :: "string \<Rightarrow> attempt \<Rightarrow> string option" where
  "sent_header name a =
     (case att_delivery a of Caught \<Rightarrow> None | Sent q \<Rightarrow> map_of (rq_headers q) name)"




definition hexDigits :: "char set" where
  "hexDigits = set ''0123456789abcdef''"

section \<open>Properties of the codec\<close>

lemma hexValue_digitChar: "d < 16 \<Longrightarrow> hexValue (digitChar d) = Some d"
proof -
  assume "d < 16"
  then have "d \<in> set [0..<16]" by simp
  then have "d \<in> {0,1,2,3,4,5,6,7,8,9,10,11,12,13,14,15}"
    by (simp add: upt_rec numeral_eq_Suc) 
  then show ?thesis
    by (auto simp: hexValue_def digitChar_def)
qed

lemma parseHex_append:
  "parseHex acc (xs @ ys) = (case parseHex acc xs of None \<Rightarrow> None | Some a \<Rightarrow> parseHex a ys)"
  by (induction xs arbitrary: acc) (auto split: option.splits)

lemma parseHex_toString16: "parseHex 0 (toStringRadix 16 n) = Some n"
proof (induction "16::nat" n rule: toStringRadix.induct)
  case (1 n)
  show ?case
  proof (cases "n < 16")
    case True
    then show ?thesis
      by (subst toStringRadix.simps) (simp add: hexValue_digitChar)
  next
    case False
    then have IH: "parseHex 0 (toStringRadix 16 (n div 16)) = Some (n div 16)"
      using 1 by simp
    have "n mod 16 < 16" by simp
    then have hv: "hexValue (digitChar (n mod 16)) = Some (n mod 16)"
      by (rule hexValue_digitChar)
    show ?thesis
      using False
      by (subst toStringRadix.simps) (simp add: parseHex_append IH hv)
  qed
qed

lemma length_toStringRadix: "2 \<le> r \<Longrightarrow> n < r ^ k \<Longrightarrow> 0 < k \<Longrightarrow> length (toStringRadix r n) \<le> k"
proof (induction r n arbitrary: k rule: toStringRadix.induct)
  case (1 r n)
  show ?case
  proof (cases "n < r")
    case True
    then show ?thesis using 1(4) by (subst toStringRadix.simps) simp
  next
    case False
    obtain j where k: "k = Suc j" using 1(4) by (cases k) auto
    have "j \<noteq> 0" using False 1(3) k by (cases j) auto
    moreover have "n div r < r ^ j" using 1(3) k 1(2)
      by (simp add: less_mult_imp_div_less mult.commute)
    ultimately have "length (toStringRadix r (n div r)) \<le> j"
      using 1(1)[of j] False 1(2) by simp
    then show ?thesis using False 1(2) k by (subst toStringRadix.simps) simp
  qed
qed

lemma digitChar_hex: "d < 16 \<Longrightarrow> digitChar d \<in> hexDigits"
proof -
  assume "d < 16"
  then have "d \<in> set [0..<16]" by simp
  then have "d \<in> {0,1,2,3,4,5,6,7,8,9,10,11,12,13,14,15}"
    by (simp add: upt_rec numeral_eq_Suc)
  then show "digitChar d \<in> hexDigits"
    by (auto simp: digitChar_def hexDigits_def)
qed

lemma digits_toStringRadix16: "set (toStringRadix 16 n) \<subseteq> hexDigits"
proof (induction "16::nat" n rule: toStringRadix.induct)
  case (1 n)
  show ?case
  proof (cases "n < 16")
    case True
    then have "toStringRadix 16 n = [digitChar n]"
      by (subst toStringRadix.simps) simp
    with True digitChar_hex[of n] show ?thesis by simp
  next
    case False
    then have eq: "toStringRadix 16 n = toStringRadix 16 (n div 16) @ [digitChar (n mod 16)]"
      by (subst toStringRadix.simps) simp
    have "n mod 16 < 16" by simp
    then have "digitChar (n mod 16) \<in> hexDigits" by (rule digitChar_hex)
    moreover have "set (toStringRadix 16 (n div 16)) \<subseteq> hexDigits"
      using 1 False by simp
    ultimately show ?thesis unfolding eq by simp
  qed
qed

lemma padStart_zero:
  "padStart n ''0'' s = replicate (n - length s) CHR ''0'' @ s"
proof -
  have "\<And>m. take m (concat (replicate m ''0'')) = replicate m CHR ''0''"
  proof -
    fix m show "take m (concat (replicate m ''0'')) = replicate m CHR ''0''"
      by (induction m) auto
  qed
  then show ?thesis by (simp add: padStart_def)
qed

lemma parseHex_zeros: "parseHex 0 (replicate k CHR ''0'' @ s) = parseHex 0 s"
  by (induction k) (auto simp: hexValue_def)

lemma packetLine_prefix:
  assumes "length line \<le> 65516"
  shows "length (padStart 4 ''0'' (toStringRadix 16 (length line + 4))) = 4"
proof -
  have "length line + 4 < 16 ^ 4" using assms by simp
  then have "length (toStringRadix 16 (length line + 4)) \<le> 4"
    by (intro length_toStringRadix) simp_all
  then show ?thesis by (simp add: padStart_zero)
qed

section \<open>Properties of the dispatcher\<close>

lemma startsWith_iff: "startsWith s p \<longleftrightarrow> (\<exists>y. s = p @ y)"
proof
  assume "startsWith s p"
  then have "s = p @ drop (length p) s"
    unfolding startsWith_def by (metis append_take_drop_id)
  then show "\<exists>y. s = p @ y" ..
next
  assume "\<exists>y. s = p @ y"
  then show "startsWith s p" by (auto simp: startsWith_def)
qed


lemma deliver_None: "fst (deliver e r ev p t w) = None \<longleftrightarrow> \<not> str_includes (events w) ev"
  by (simp add: deliver_def Let_def split: option.splits)

lemma deliver_Some_webhook:
  "fst (deliver e r ev p t w) = Some a \<Longrightarrow> att_webhook a = w"
  by (auto simp: deliver_def Let_def split: option.splits if_splits)

lemma triggerLoop_webhooks:
  "map att_webhook (triggerLoop e r ev p t ws) = filter (\<lambda>w. str_includes (events w) ev) ws"
proof (induction ws arbitrary: t)
  case Nil
  show ?case by simp
next
  case (Cons w ws)
  show ?case
  proof (cases "fst (deliver e r ev p t w)")
    case None
    then have "\<not> str_includes (events w) ev" by (simp add: deliver_None)
    with None Cons.IH show ?thesis by simp
  next
    case (Some a)
    then have "str_includes (events w) ev"
      using deliver_None[of e r ev p t w] by auto
    moreover have "att_webhook a = w" using Some by (rule deliver_Some_webhook)
    ultimately show ?thesis using Some Cons.IH by simp
  qed
qed

lemma triggerLoop_member:
  "a \<in> set (triggerLoop e r ev p t ws) \<Longrightarrow> \<exists>t' w. w \<in> set ws \<and> fst (deliver e r ev p t' w) = Some a"
proof (induction ws arbitrary: t)
  case Nil
  then show ?case by simp
next
  case (Cons w ws)
  show ?case
  proof (cases "fst (deliver e r ev p t w)")
    case None
    with Cons.prems have "a \<in> set (triggerLoop e r ev p (snd (deliver e r ev p t w)) ws)" by simp
    from Cons.IH[OF this] show ?thesis by auto
  next
    case (Some b)
    with Cons.prems consider "a = b" | "a \<in> set (triggerLoop e r ev p (snd (deliver e r ev p t w)) ws)"
      by auto
    then show ?thesis
    proof cases
      case 1
      with Some show ?thesis by auto
    next
      case 2
      from Cons.IH[OF this] show ?thesis by auto
    qed
  qed
qed

text \<open>Later rows come first, and rows of equal \<^verbatim>\<open>created_at\<close> stay in table order.\<close>

lemma listWebhooks_ties:
  "map wid (listWebhooks
     (demo_env\<lparr>db_webhooks :=
        [\<lparr>wid = 41, repo_name = ''demo.git'', url = [], secret = [], events = ''push'',
          created_at = ''2024-05-01 10:00:00''\<rparr>,
         \<lparr>wid = 42, repo_name = ''demo.git'', url = [], secret = [], events = ''push'',
          created_at = ''2024-05-02 10:00:00''\<rparr>,
         \<lparr>wid = 43, repo_name = ''demo.git'', url = [], secret = [], events = ''push'',
          created_at = ''2024-05-02 10:00:00''\<rparr>,
         \<lparr>wid = 44, repo_name = ''demo.git'', url = [], secret = [], events = ''push'',
          created_at = ''2024-05-03 10:00:00''\<rparr>]\<rparr>) ''demo.git'')
   = [44, 42, 43, 41]"
  by (simp add: listWebhooks_def)



lemma deliver_body:
  "fst (deliver e r ev p t w) = Some a \<Longrightarrow>
   att_body a = JSON_stringify (objectSpread [(''event'', ev), (''repository'', r), (''timestamp'', toISOString e (clock e t))] p)"
  by (auto simp: deliver_def Let_def split: option.splits if_splits)

lemma deliver_signature:
  assumes "fst (deliver e r ev p t w) = Some a" and "att_delivery a = Sent q"
  shows "rq_body q = att_body a"
    and "secret w \<noteq> [] \<Longrightarrow> map_of (rq_headers q) ''X-GutHib-Signature'' = Some (''sha256='' @ createHmac_hex e ''sha256'' (secret w) (rq_body q))"
    and "secret w = [] \<Longrightarrow> map_of (rq_headers q) ''X-GutHib-Signature'' = None"
  using assms by (auto simp: deliver_def Let_def split: option.splits if_splits)

lemma deliver_delivery_id:
  assumes "fst (deliver e r ev p t w) = Some a" and "att_delivery a = Sent q"
  shows "map_of (rq_headers q) ''X-GutHib-Delivery'' = Some (toStringRadix 10 (clock e (Suc t)))"
  using assms by (auto simp: deliver_def Let_def split: option.splits if_splits)

lemma deliver_net: "deliver (e\<lparr>net := n\<rparr>) r ev p t w = deliver e r ev p t w"
  by (simp add: deliver_def Let_def split: option.splits)

lemma triggerLoop_net: "triggerLoop (e\<lparr>net := n\<rparr>) r ev p t ws = triggerLoop e r ev p t ws"
  by (induction ws arbitrary: t) (simp_all add: deliver_net split: option.splits)

lemma triggerWebhooks_net: "triggerWebhooks (e\<lparr>net := n\<rparr>) r ev p = triggerWebhooks e r ev p"
  by (simp add: triggerWebhooks_def triggerLoop_net listWebhooks_def)




section \<open>Properties of the router\<close>

lemma firstOf_Replied_Nil: "firstOf [] (Replied r # rs) = r"
  by simp

lemma server_git_route:
  assumes "parsePath e (req_url req) = Some pp" and "apiRoute req = None" and "repo pp = Some r"
  shows "server e req = Reply (gitRoutes e req r (path pp) (query pp))"
  using assms by (simp add: server_def)

lemma gitRoutes_discovery:
  assumes "query_get q ''service'' = Some service"
    and "service = ''git-upload-pack'' \<or> service = ''git-receive-pack''"
  shows "gitRoutes e req r ''/info/refs'' q = handleInfoRefs e req r service"
  using assms by (auto simp: gitRoutes_def infoRefsRoute_def)

lemma gitRoutes_receive_pack:
  assumes "req_method req = ''POST''"
  shows "gitRoutes e req r ''/git-receive-pack'' q = handleReceivePack e req r"
  using assms by (simp add: gitRoutes_def infoRefsRoute_def)

lemma no_page_at_info_refs:
  "commitMatch ''/info/refs'' = None" "treeMatch ''/info/refs'' = None"
  "blobMatch ''/info/refs'' = None" "compareMatch ''/info/refs'' = None"
  by (simp_all add: commitMatch_def treeMatch_def blobMatch_def compareMatch_def
      startsWithI_def toUpper_def)

lemma gitRoutes_bad_service:
  assumes "query_get q ''service'' \<noteq> Some ''git-upload-pack''"
    and "query_get q ''service'' \<noteq> Some ''git-receive-pack''"
  shows "gitRoutes e req r ''/info/refs'' q = notFound"
proof -
  have "infoRefsRoute e req r ''/info/refs'' q = Passed []"
    using assms by (auto simp: infoRefsRoute_def split: option.splits)
  then show ?thesis
    by (simp add: gitRoutes_def no_page_at_info_refs pageRoute_def notFound_def)
qed

lemma repoMatch_name:
  assumes "repoMatch p = Some m"
  shows "CHR ''/'' \<notin> set (fst m) \<and> endsWith (fst m) ''.git'' \<and> 4 < length (fst m)
         \<and> (\<exists>rest. p = CHR ''/'' # fst m @ rest \<and> (rest = [] \<or> hd rest = CHR ''/''))"
proof -
  obtain cs where p: "p = CHR ''/'' # cs"
    using assms by (auto simp: repoMatch_def split: list.splits if_splits)
  let ?seg = "takeWhile nonSlash cs" and ?rest = "dropWhile nonSlash cs"
  have m: "fst m = ?seg" and ok: "4 < length ?seg" "endsWith ?seg ''.git''"
    using assms p by (auto simp: repoMatch_def Let_def split: if_splits)
  have "\<forall>c \<in> set ?seg. nonSlash c" by (meson set_takeWhileD)
  then have "CHR ''/'' \<notin> set ?seg" by (auto simp: nonSlash_def)
  moreover have "cs = ?seg @ ?rest" by simp
  moreover have "?rest = [] \<or> hd ?rest = CHR ''/''"
    using hd_dropWhile[of nonSlash cs] by (auto simp: nonSlash_def)
  ultimately show ?thesis using m ok p by metis
qed

lemma parsePath_repo:
  assumes "parsePath e u = Some pp" and "repo pp = Some r"
  shows "\<exists>urlObj m. URL_base e u = Some urlObj \<and> repoMatch (pathname urlObj) = Some m \<and> fst m = r"
  using assms by (auto simp: parsePath_def split: option.splits)

text \<open>
  What the pattern of the router does ensure about a repository name: it holds no
  \<^verbatim>\<open>/\<close> and ends in \<^verbatim>\<open>.git\<close> after at least one other character.
\<close>

lemma parsePath_name:
  assumes "parsePath e u = Some pp" and "repo pp = Some r"
  shows "CHR ''/'' \<notin> set r \<and> endsWith r ''.git'' \<and> 4 < length r"
  using parsePath_repo [OF assms] repoMatch_name by blast

lemmas demo_defs = demo_env_def demo_webhooks_def demo_URL_abs_def demo_URL_base_def
  demo_target_def push_request_def get_request_def

lemmas route_defs = server_def parsePath_def repoMatch_def nonSlash_def endsWith_def
  lineTerminator_def apiRoute_def webhookRoute_def webhookMatch_def startsWith_def
  gitRoutes_def infoRefsRoute_def query_get_def pageRoute_def commitMatch_def treeMatch_def
  blobMatch_def compareMatch_def startsWithI_def toUpper_def Let_def

lemmas dispatch_defs = handleReceivePack_def getRepoPath_def triggerWebhooks_def
  listWebhooks_def deliver_def startsWith_def Let_def

lemma byteLength_ascii: "list_all (\<lambda>c. (of_char c :: nat) < 128) s \<Longrightarrow> byteLength s = length s"
  by (induction s) (auto simp: byteLength_def)


lemma replicate_numeral: "replicate (numeral k) c = c # replicate (pred_numeral k) c"
  by (simp add: numeral_eq_Suc)


section \<open>The claims\<close>

text \<open>
  C4 (as amended). For every line of at most 65516 UTF-16 code units, \<open>packetLine\<close>
  returns four lowercase hexadecimal digits followed by the line itself; the digits read
  as the number of code units of the line plus 4; and reading the packet back (the length
  prefix decoded, the prefix stripped) gives the line. The count is \<^verbatim>\<open>line.length\<close>, which
  is the number of bytes when the line is ASCII.
\<close>

theorem packetLine_encoding:
  assumes "length line \<le> 65516"
  shows "packetLine line = take 4 (packetLine line) @ line
    \<and> length (take 4 (packetLine line)) = 4
    \<and> set (take 4 (packetLine line)) \<subseteq> hexDigits
    \<and> parseHex 0 (take 4 (packetLine line)) = Some (length line + 4)
    \<and> decode_spec (packetLine line) = Some line
    \<and> (list_all (\<lambda>c. (of_char c :: nat) < 128) line \<longrightarrow> byteLength line = length line)"
proof -
  let ?p = "padStart 4 ''0'' (toStringRadix 16 (length line + 4))"
  have len: "length ?p = 4" using assms by (rule packetLine_prefix)
  have pl: "packetLine line = ?p @ line" by (simp add: packetLine_def)
  have tk: "take 4 (packetLine line) = ?p" using len pl by simp
  have dr: "drop 4 (packetLine line) = line" using len pl by simp
  have hx: "set ?p \<subseteq> hexDigits"
    using digits_toStringRadix16[of "length line + 4"]
    by (auto simp: padStart_zero hexDigits_def)
  have ph: "parseHex 0 ?p = Some (length line + 4)"
    by (simp add: padStart_zero parseHex_zeros parseHex_toString16)
  have dc: "decode_spec (packetLine line) = Some line"
    using assms len by (simp add: decode_spec_def tk ph dr) (simp add: pl)
  show ?thesis
    using pl tk len hx ph dc byteLength_ascii by auto
qed

text \<open>The encoding of \<^verbatim>\<open>hello\<close>, a line of five ASCII characters.\<close>

theorem packetLine_encoding_witness:
  "length ''hello'' \<le> 65516
   \<and> packetLine ''hello'' = ''0009hello''
   \<and> parseHex 0 ''0009'' = Some 9
   \<and> decode_spec ''0009hello'' = Some ''hello''
   \<and> byteLength ''hello'' = 5"
proof -
  have h: "length ''hello'' \<le> 65516" by simp
  have pl: "packetLine ''hello'' = ''0009hello''"
    by (simp add: packetLine_def toStringRadix.simps digitChar_def padStart_zero replicate_numeral)
  have ascii: "list_all (\<lambda>c. (of_char c :: nat) < 128) ''hello''" by simp
  show ?thesis
    using h ascii packetLine_encoding [OF h] unfolding pl by simp
qed

text \<open>
  C4 as stated fails on a line that is not ASCII: the one code unit \<^verbatim>\<open>U+00E9\<close> is two
  bytes on the wire, so the claim asks for the prefix \<^verbatim>\<open>0006\<close>, and \<open>packetLine\<close> gives
  \<^verbatim>\<open>0005\<close>.
\<close>

theorem packetLine_bytes_counterexample:
  "byteLength [CHR 0xE9] \<le> 65516
   \<and> parseHex 0 (take 4 (packetLine [CHR 0xE9])) = Some 5
   \<and> parseHex 0 (take 4 (packetLine [CHR 0xE9])) \<noteq> Some (byteLength [CHR 0xE9] + 4)"
  by (simp add: byteLength_def packetLine_def toStringRadix.simps digitChar_def padStart_zero
      replicate_numeral hexValue_def)



text \<open>
  A discovery request that reaches the Git routes is answered 200 or 404 and never 400:
  200 when the service is one of the two supported and the repository exists, 404
  otherwise, from the handler when the repository is missing and from the end of the
  routes when the service is missing or unsupported.
\<close>

lemma discovery_never_400:
  assumes "parsePath e (req_url req) = Some pp" and "apiRoute req = None"
    and "repo pp = Some r" and "path pp = ''/info/refs''"
  shows "\<exists>resp. server e req = Reply resp \<and>
     status resp =
       (if (query_get (query pp) ''service'' = Some ''git-upload-pack''
            \<or> query_get (query pp) ''service'' = Some ''git-receive-pack'')
           \<and> existsSync e (getRepoPath e r)
        then 200 else 404)"
proof (cases "query_get (query pp) ''service'' = Some ''git-upload-pack''
            \<or> query_get (query pp) ''service'' = Some ''git-receive-pack''")
  case True
  then obtain service where s: "query_get (query pp) ''service'' = Some service"
      "service = ''git-upload-pack'' \<or> service = ''git-receive-pack''" by auto
  have "server e req = Reply (handleInfoRefs e req r service)"
    using assms s by (simp add: server_git_route gitRoutes_discovery)
  then show ?thesis using True s
    by (auto simp: handleInfoRefs_def Let_def repositoryNotFound_def)
next
  case False
  then have "server e req = Reply notFound"
    using assms by (simp add: server_git_route gitRoutes_bad_service)
  then show ?thesis using False by (simp add: notFound_def)
qed

text \<open>
  C2. On the existing repository \<^verbatim>\<open>demo.git\<close> a discovery request with the unsupported
  service \<^verbatim>\<open>git-archive\<close>, and one with no \<^verbatim>\<open>service\<close> parameter, are answered with
  the 404 of the end of the routes, where the claim has 400.
\<close>

theorem discovery_unsupported_service_404:
  "existsSync demo_env (getRepoPath demo_env ''demo.git'')
   \<and> server demo_env (get_request ''/demo.git/info/refs?service=git-archive'') = Reply notFound
   \<and> server demo_env (get_request ''/demo.git/info/refs'') = Reply notFound
   \<and> status notFound = 404"
  by (simp add: demo_defs route_defs getRepoPath_def notFound_def)

text \<open>
  C3 (as amended). For both supported services the body of the discovery response for
  an existing repository begins with the packet line of \<^verbatim>\<open># service=<service>\n\<close>
  followed by the flush packet \<^verbatim>\<open>0000\<close>: for \<^verbatim>\<open>git-upload-pack\<close> that is
  \<^verbatim>\<open>001e# service=git-upload-pack\n0000\<close>, and for \<^verbatim>\<open>git-receive-pack\<close>, whose name is
  one character longer, \<^verbatim>\<open>001f# service=git-receive-pack\n0000\<close>.
\<close>

theorem discovery_announcement:
  assumes "parsePath e (req_url req) = Some pp" and "apiRoute req = None"
    and "repo pp = Some r" and "path pp = ''/info/refs''"
    and "query_get (query pp) ''service'' = Some service"
    and "service = ''git-upload-pack'' \<or> service = ''git-receive-pack''"
    and "existsSync e (getRepoPath e r)"
  shows "\<exists>resp. server e req = Reply resp \<and> status resp = 200
     \<and> startsWith (body resp) (packetLine (''# service='' @ service @ [CHR 0x0A]) @ flushPkt)
     \<and> (service = ''git-upload-pack'' \<longrightarrow>
          startsWith (body resp) (''001e# service=git-upload-pack'' @ [CHR 0x0A] @ ''0000''))
     \<and> (service = ''git-receive-pack'' \<longrightarrow>
          startsWith (body resp) (''001f# service=git-receive-pack'' @ [CHR 0x0A] @ ''0000''))"
proof -
  have srv: "server e req = Reply (handleInfoRefs e req r service)"
    using assms by (simp add: server_git_route gitRoutes_discovery)
  have up: "packetLine (''# service=git-upload-pack'' @ [CHR 0x0A])
            = ''001e# service=git-upload-pack'' @ [CHR 0x0A]"
    by (simp add: packetLine_def toStringRadix.simps digitChar_def padStart_zero replicate_numeral)
  have rp: "packetLine (''# service=git-receive-pack'' @ [CHR 0x0A])
            = ''001f# service=git-receive-pack'' @ [CHR 0x0A]"
    by (simp add: packetLine_def toStringRadix.simps digitChar_def padStart_zero replicate_numeral)
  have bd: "body (handleInfoRefs e req r service)
            = (packetLine (''# service='' @ service @ [CHR 0x0A]) @ flushPkt)
              @ fst (git e [replaceFirst ''git-'' [] service, ''--stateless-rpc'',
                            ''--advertise-refs'', getRepoPath e r] [])"
    using assms(7) by (simp add: handleInfoRefs_def Let_def)
  have st: "status (handleInfoRefs e req r service) = 200"
    using assms(7) by (simp add: handleInfoRefs_def Let_def)
  have pre: "startsWith (body (handleInfoRefs e req r service))
               (packetLine (''# service='' @ service @ [CHR 0x0A]) @ flushPkt)"
    unfolding bd startsWith_iff by blast
  have "service = ''git-upload-pack'' \<Longrightarrow>
          startsWith (body (handleInfoRefs e req r service))
            (''001e# service=git-upload-pack'' @ [CHR 0x0A] @ ''0000'')"
    using pre up by (simp add: flushPkt_def)
  moreover have "service = ''git-receive-pack'' \<Longrightarrow>
          startsWith (body (handleInfoRefs e req r service))
            (''001f# service=git-receive-pack'' @ [CHR 0x0A] @ ''0000'')"
    using pre rp by (simp add: flushPkt_def)
  ultimately show ?thesis using srv st pre by blast
qed

text \<open>The discovery of \<^verbatim>\<open>git-receive-pack\<close> on \<^verbatim>\<open>demo.git\<close>.\<close>

lemma demo_discovery:
  "parsePath demo_env ''/demo.git/info/refs?service=git-receive-pack''
     = Some \<lparr>repo = Some ''demo.git'', path = ''/info/refs'',
             query = [(''service'', ''git-receive-pack'')]\<rparr>"
  "apiRoute (get_request ''/demo.git/info/refs?service=git-receive-pack'') = None"
  "existsSync demo_env (getRepoPath demo_env ''demo.git'')"
  by (simp_all add: demo_defs route_defs getRepoPath_def)

theorem discovery_announcement_witness:
  "server demo_env (get_request ''/demo.git/info/refs?service=git-receive-pack'')
     = Reply (handleInfoRefs demo_env (get_request ''/demo.git/info/refs?service=git-receive-pack'')
                ''demo.git'' ''git-receive-pack'')
   \<and> startsWith
        (body (handleInfoRefs demo_env (get_request ''/demo.git/info/refs?service=git-receive-pack'')
                 ''demo.git'' ''git-receive-pack''))
        (''001f# service=git-receive-pack'' @ [CHR 0x0A] @ ''0000'')"
proof -
  let ?req = "get_request ''/demo.git/info/refs?service=git-receive-pack''"
  let ?pp = "\<lparr>repo = Some ''demo.git'', path = ''/info/refs'',
               query = [(''service'', ''git-receive-pack'')]\<rparr>"
  have h1: "parsePath demo_env (req_url ?req) = Some ?pp"
    using demo_discovery(1) by (simp add: get_request_def)
  have h2: "apiRoute ?req = None" by (rule demo_discovery(2))
  have h3: "repo ?pp = Some ''demo.git''" by simp
  have h4: "path ?pp = ''/info/refs''" by simp
  have h5: "query_get (query ?pp) ''service'' = Some ''git-receive-pack''"
    by (simp add: query_get_def)
  have h6: "''git-receive-pack'' = ''git-upload-pack'' \<or> ''git-receive-pack'' = ''git-receive-pack''"
    by simp
  have h7: "existsSync demo_env (getRepoPath demo_env ''demo.git'')" by (rule demo_discovery(3))
  have srv: "server demo_env ?req = Reply (handleInfoRefs demo_env ?req ''demo.git'' ''git-receive-pack'')"
    using h1 h2 h5 by (simp add: server_git_route gitRoutes_discovery)
  from discovery_announcement [OF h1 h2 h3 h4 h5 h6 h7] srv
  show ?thesis by auto
qed

text \<open>
  C3 as stated fails for \<^verbatim>\<open>git-receive-pack\<close>: the body of the response, status 200, does
  not begin with \<^verbatim>\<open>001e# service=git-receive-pack\n0000\<close>.
\<close>

theorem discovery_prefix_counterexample:
  "server demo_env (get_request ''/demo.git/info/refs?service=git-receive-pack'')
     = Reply (handleInfoRefs demo_env (get_request ''/demo.git/info/refs?service=git-receive-pack'')
                ''demo.git'' ''git-receive-pack'')
   \<and> status (handleInfoRefs demo_env (get_request ''/demo.git/info/refs?service=git-receive-pack'')
                ''demo.git'' ''git-receive-pack'') = 200
   \<and> \<not> startsWith
        (body (handleInfoRefs demo_env (get_request ''/demo.git/info/refs?service=git-receive-pack'')
                 ''demo.git'' ''git-receive-pack''))
        (''001e# service=git-receive-pack'' @ [CHR 0x0A] @ ''0000'')"
  by (simp add: demo_defs route_defs getRepoPath_def handleInfoRefs_def packetLine_def
      toStringRadix.simps digitChar_def padStart_zero replicate_numeral flushPkt_def)

text \<open>
  C5. The repository \<^verbatim>\<open>a..b~c.git\<close> exists. Its name holds \<^verbatim>\<open>..\<close> and the character
  \<^verbatim>\<open>~\<close>, which is outside \<^verbatim>\<open>[A-Za-z0-9_-]\<close>; the router takes it all the same. The
  discovery request for it is answered 200 with \<^verbatim>\<open>git upload-pack\<close> spawned on its
  directory, and the request for its page is answered 200 after three \<^verbatim>\<open>git\<close> commands
  run in its directory, where the claim has both rejected with no subprocess.
\<close>

theorem router_accepts_unvalidated_name:
  "str_includes ''a..b~c.git'' ''..''
   \<and> CHR ''~'' \<in> set ''a..b~c.git''
   \<and> server demo_env (get_request ''/a..b~c.git/info/refs?service=git-upload-pack'')
       = Reply (handleInfoRefs demo_env (get_request ''/a..b~c.git/info/refs?service=git-upload-pack'')
                  ''a..b~c.git'' ''git-upload-pack'')
   \<and> status (handleInfoRefs demo_env (get_request ''/a..b~c.git/info/refs?service=git-upload-pack'')
                  ''a..b~c.git'' ''git-upload-pack'') = 200
   \<and> git_spawned (handleInfoRefs demo_env (get_request ''/a..b~c.git/info/refs?service=git-upload-pack'')
                  ''a..b~c.git'' ''git-upload-pack'')
       = [Spawn [''upload-pack'', ''--stateless-rpc'', ''--advertise-refs'', ''repos/a..b~c.git''] None]
   \<and> server demo_env (get_request ''/a..b~c.git/'')
       = Reply ((htmlPage ''<!DOCTYPE html>'')
                  \<lparr>git_spawned :=
                     [Spawn [''branch'', ''-a''] (Some ''repos/a..b~c.git''),
                      Spawn [''tag'', ''-l''] (Some ''repos/a..b~c.git''),
                      Spawn [''log'', ''--all'', ''--oneline'', ''-20''] (Some ''repos/a..b~c.git'')]\<rparr>)
   \<and> status (htmlPage ''<!DOCTYPE html>'') = 200"
  by (simp add: demo_defs route_defs handleInfoRefs_def getRepoPath_def renderPage_def
      htmlPage_def)

text \<open>
  C6. In every request sent by the dispatcher the body is the serialised JSON text of
  the attempt; when the secret of the subscription is not empty the header
  \<^verbatim>\<open>X-GutHib-Signature\<close> is \<^verbatim>\<open>sha256=\<close> followed by the hexadecimal HMAC-SHA256 (the
  \<^verbatim>\<open>createHmac\<close> of \<^verbatim>\<open>node:crypto\<close>) of exactly that body under the secret as key; when
  the secret is empty the request has no such header.
\<close>

theorem webhook_signature:
  assumes "a \<in> set (triggerWebhooks e repoName event payload)"
    and "att_delivery a = Sent q"
  shows "rq_body q = att_body a
    \<and> (secret (att_webhook a) \<noteq> [] \<longrightarrow>
          map_of (rq_headers q) ''X-GutHib-Signature''
            = Some (''sha256='' @ createHmac_hex e ''sha256'' (secret (att_webhook a)) (rq_body q)))
    \<and> (secret (att_webhook a) = [] \<longrightarrow>
          map_of (rq_headers q) ''X-GutHib-Signature'' = None)"
proof -
  from assms(1) obtain t w where d: "fst (deliver e repoName event payload t w) = Some a"
    unfolding triggerWebhooks_def by (blast dest: triggerLoop_member)
  then have w: "att_webhook a = w" by (rule deliver_Some_webhook)
  from deliver_signature [OF d assms(2)] w show ?thesis by simp
qed

text \<open>
  The three attempts of a push to \<^verbatim>\<open>demo.git\<close>: the second is for the subscription
  with the secret \<^verbatim>\<open>s3cret\<close> and is signed, the third has no secret and no signature.
\<close>

lemma demo_attempts_shape:
  "map (wid \<circ> att_webhook) demo_attempts = [4, 2, 1]"
  "map (secret \<circ> att_webhook) demo_attempts = [[], ''s3cret'', []]"
  "length demo_attempts = 3"
  by (simp_all add: demo_attempts_def dispatch_defs demo_defs)

theorem webhook_signature_witness:
  "demo_attempts ! 1 \<in> set demo_attempts
   \<and> secret (att_webhook (demo_attempts ! 1)) = ''s3cret''
   \<and> sent_header ''X-GutHib-Signature'' (demo_attempts ! 1)
       = Some (''sha256='' @ createHmac_hex demo_env ''sha256'' ''s3cret'' (att_body (demo_attempts ! 1)))
   \<and> demo_attempts ! 2 \<in> set demo_attempts
   \<and> secret (att_webhook (demo_attempts ! 2)) = []
   \<and> sent_header ''X-GutHib-Signature'' (demo_attempts ! 2) = None
   \<and> sent_header ''X-GutHib-Event'' (demo_attempts ! 2) = Some ''push''"
proof -
  have m1: "demo_attempts ! 1 \<in> set demo_attempts" and m2: "demo_attempts ! 2 \<in> set demo_attempts"
    by (simp_all add: demo_attempts_shape)
  have s1: "secret (att_webhook (demo_attempts ! 1)) = ''s3cret''"
    and s2: "secret (att_webhook (demo_attempts ! 2)) = []"
    by (simp_all add: demo_attempts_def dispatch_defs demo_defs)
  obtain q1 where q1: "att_delivery (demo_attempts ! 1) = Sent q1"
    by (simp add: demo_attempts_def dispatch_defs demo_defs)
  obtain q2 where q2: "att_delivery (demo_attempts ! 2) = Sent q2"
    and ev: "map_of (rq_headers q2) ''X-GutHib-Event'' = Some ''push''"
    by (simp add: demo_attempts_def dispatch_defs demo_defs)
  from webhook_signature [OF m1 [unfolded demo_attempts_def] q1 [unfolded demo_attempts_def]]
       webhook_signature [OF m2 [unfolded demo_attempts_def] q2 [unfolded demo_attempts_def]]
       m1 m2 s1 s2 q1 q2 ev
  show ?thesis by (simp add: sent_header_def demo_attempts_def)
qed

text \<open>
  C7. Whatever the network does with the requests (a response of any status, a
  connection error, or no answer), the reply to the pushing client, the attempts made
  and the lines printed by the dispatch loop are the same: the only thing that depends
  on it is what the callbacks of the sent requests print. Every subscription of the
  repository that matches \<^verbatim>\<open>push\<close> has its one attempt, none has a second, and an attempt
  prints at most one line.
\<close>

theorem deliveries_ignore_network:
  "handleReceivePack (e\<lparr>net := n\<rparr>) req repoName
     = (handleReceivePack e req repoName)
         \<lparr>printed_later := mset (concat (map (callbackLog (e\<lparr>net := n\<rparr>))
                                (dispatched (handleReceivePack e req repoName))))\<rparr>
   \<and> map att_webhook (dispatched (handleReceivePack (e\<lparr>net := n\<rparr>) req repoName))
       = (if existsSync e (getRepoPath e repoName)
             \<and> snd (git e [''receive-pack'', ''--stateless-rpc'', getRepoPath e repoName]
                       (req_body req)) = Some 0
          then filter (\<lambda>w. str_includes (events w) ''push'') (listWebhooks e repoName)
          else [])
   \<and> length (catchLog a) + length (callbackLog (e\<lparr>net := n\<rparr>) a) \<le> 1"
proof -
  have 1: "handleReceivePack (e\<lparr>net := n\<rparr>) req repoName
     = (handleReceivePack e req repoName)
         \<lparr>printed_later := mset (concat (map (callbackLog (e\<lparr>net := n\<rparr>))
                                (dispatched (handleReceivePack e req repoName))))\<rparr>"
    by (simp add: handleReceivePack_def Let_def getRepoPath_def triggerWebhooks_net
        repositoryNotFound_def)
  have 2: "map att_webhook (dispatched (handleReceivePack e req repoName))
       = (if existsSync e (getRepoPath e repoName)
             \<and> snd (git e [''receive-pack'', ''--stateless-rpc'', getRepoPath e repoName]
                       (req_body req)) = Some 0
          then filter (\<lambda>w. str_includes (events w) ''push'') (listWebhooks e repoName)
          else [])"
    by (simp add: handleReceivePack_def Let_def triggerWebhooks_def triggerLoop_webhooks
        repositoryNotFound_def)
  have 3: "length (catchLog a) + length (callbackLog (e\<lparr>net := n\<rparr>) a) \<le> 1"
    by (simp add: catchLog_def callbackLog_def split: delivery.splits net_event.splits)
  have "dispatched (handleReceivePack (e\<lparr>net := n\<rparr>) req repoName)
      = dispatched (handleReceivePack e req repoName)"
    by (subst 1) simp
  with 1 2 3 show ?thesis by simp
qed

text \<open>
  With the subscribers answering (a refused connection, a status 500) and with all of
  them silent, the push to \<^verbatim>\<open>demo.git\<close> has the same status, the same attempts and the
  same line printed by the loop; only the lines of the callbacks differ.
\<close>

theorem deliveries_ignore_network_witness:
  "dispatched (handleReceivePack (demo_env\<lparr>net := (\<lambda>w. Silent)\<rparr>) (push_request ''ok'') ''demo.git'')
     = dispatched (handleReceivePack demo_env (push_request ''ok'') ''demo.git'')
   \<and> status (handleReceivePack (demo_env\<lparr>net := (\<lambda>w. Silent)\<rparr>) (push_request ''ok'') ''demo.git'')
     = status (handleReceivePack demo_env (push_request ''ok'') ''demo.git'')
   \<and> printed (handleReceivePack demo_env (push_request ''ok'') ''demo.git'')
     = [Log_error ''ci.example.com'']
   \<and> printed (handleReceivePack (demo_env\<lparr>net := (\<lambda>w. Silent)\<rparr>) (push_request ''ok'') ''demo.git'')
     = [Log_error ''ci.example.com'']
   \<and> printed_later (handleReceivePack demo_env (push_request ''ok'') ''demo.git'')
     = {#Log_responded ''https://hooks.example.org:8443/notify?x=1'' 500,
         Log_failed ''http://ci.example.com/hook'' ''connect ECONNREFUSED''#}
   \<and> printed_later (handleReceivePack (demo_env\<lparr>net := (\<lambda>w. Silent)\<rparr>) (push_request ''ok'') ''demo.git'')
     = {#}"
proof -
  let ?r = "handleReceivePack demo_env (push_request ''ok'') ''demo.git''"
  let ?s = "handleReceivePack (demo_env\<lparr>net := (\<lambda>w. Silent)\<rparr>) (push_request ''ok'') ''demo.git''"
  have eq: "?s = ?r\<lparr>printed_later := mset (concat (map (callbackLog (demo_env\<lparr>net := (\<lambda>w. Silent)\<rparr>)) (dispatched ?r)))\<rparr>"
    using deliveries_ignore_network [where e = demo_env and n = "\<lambda>w. Silent"
        and req = "push_request ''ok''" and repoName = "''demo.git''"]
    by simp
  have d: "dispatched ?s = dispatched ?r" by (subst eq) simp
  have s: "status ?s = status ?r" by (subst eq) simp
  have p: "printed ?s = printed ?r" by (subst eq) simp
  have p1: "printed ?r = [Log_error ''ci.example.com'']"
    by (simp add: dispatch_defs demo_defs catchLog_def)
  have l1: "printed_later ?r
     = {#Log_responded ''https://hooks.example.org:8443/notify?x=1'' 500,
         Log_failed ''http://ci.example.com/hook'' ''connect ECONNREFUSED''#}"
    by (simp add: dispatch_defs demo_defs callbackLog_def)
  have l2: "printed_later ?s = {#}"
    by (simp add: dispatch_defs demo_defs callbackLog_def)
  from d s p p1 l1 l2 show ?thesis by simp
qed

text \<open>
  C8. The body of every attempt made for a receive-pack is the JSON text of the event
  \<^verbatim>\<open>push\<close>, the repository name, a timestamp and the property \<^verbatim>\<open>ref\<close> with the value
  \<^verbatim>\<open>refs/heads/main\<close>, whatever the request carried.
\<close>

theorem push_payload_ref:
  assumes "a \<in> set (dispatched (handleReceivePack e req repoName))"
  shows "\<exists>t. att_body a =
           JSON_stringify
             [(''event'', ''push''), (''repository'', repoName),
              (''timestamp'', toISOString e (clock e t)), (''ref'', ''refs/heads/main'')]"
proof -
  from assms have "a \<in> set (triggerWebhooks e repoName ''push'' [(''ref'', ''refs/heads/main'')])"
    by (auto simp: handleReceivePack_def Let_def repositoryNotFound_def split: if_splits)
  then obtain t w where
    "fst (deliver e repoName ''push'' [(''ref'', ''refs/heads/main'')] t w) = Some a"
    unfolding triggerWebhooks_def by (blast dest: triggerLoop_member)
  then have "att_body a =
      JSON_stringify
        (objectSpread
           [(''event'', ''push''), (''repository'', repoName),
            (''timestamp'', toISOString e (clock e t))]
           [(''ref'', ''refs/heads/main'')])"
    by (rule deliver_body)
  then show ?thesis by (auto simp: objectSpread_def)
qed

text \<open>The first attempt of a push to \<^verbatim>\<open>demo.git\<close>.\<close>

theorem push_payload_ref_witness:
  "hd (dispatched (handleReceivePack demo_env (push_request ''any refs at all'') ''demo.git''))
     \<in> set (dispatched (handleReceivePack demo_env (push_request ''any refs at all'') ''demo.git''))
   \<and> att_body (hd (dispatched (handleReceivePack demo_env (push_request ''any refs at all'') ''demo.git'')))
     = JSON_stringify
         [(''event'', ''push''), (''repository'', ''demo.git''),
          (''timestamp'', ''2024-05-01T10:00:00.000Z''), (''ref'', ''refs/heads/main'')]"
proof -
  let ?as = "dispatched (handleReceivePack demo_env (push_request ''any refs at all'') ''demo.git'')"
  have ne: "?as \<noteq> []" by (simp add: dispatch_defs demo_defs)
  then have m: "hd ?as \<in> set ?as" by simp
  from push_payload_ref [OF m] obtain t where
    "att_body (hd ?as) = JSON_stringify
             [(''event'', ''push''), (''repository'', ''demo.git''),
              (''timestamp'', toISOString demo_env (clock demo_env t)), (''ref'', ''refs/heads/main'')]"
    by blast
  then have "att_body (hd ?as) = JSON_stringify
         [(''event'', ''push''), (''repository'', ''demo.git''),
          (''timestamp'', ''2024-05-01T10:00:00.000Z''), (''ref'', ''refs/heads/main'')]"
    by (simp add: demo_env_def)
  with m show ?thesis by simp
qed

text \<open>
  C9. The header \<^verbatim>\<open>X-GutHib-Delivery\<close> is the decimal text of \<^verbatim>\<open>Date.now()\<close>. One push
  to \<^verbatim>\<open>demo.git\<close> sends two requests, to the subscriptions 2 and 1, within the same
  millisecond, and both carry the same identifier.
\<close>

theorem delivery_ids_collide:
  "map (wid \<circ> att_webhook) (dispatched (handleReceivePack demo_env (push_request ''ok'') ''demo.git''))
     = [4, 2, 1]
   \<and> map (sent_header ''X-GutHib-Delivery'')
         (dispatched (handleReceivePack demo_env (push_request ''ok'') ''demo.git''))
     = [None, Some ''1714557600000'', Some ''1714557600000'']"
  by (simp add: dispatch_defs demo_defs sent_header_def toStringRadix.simps digitChar_def)



end
